theory Spec2Isabelle
  imports Complex_Main "HOL-Library.AList"
begin

section \<open>Service coordinates and the RPC authorization gate\<close>

text \<open>
  \<^verbatim>\<open>ServiceCoord\<close> is imported from \<^verbatim>\<open>cms.async\<close>; the web server builds it as
  \<^verbatim>\<open>ServiceCoord(name, shard)\<close>, reads \<^verbatim>\<open>service.name\<close> and compares coordinates with
  \<^verbatim>\<open>==\<close>, which is equality of the two components.
\<close>

record ServiceCoord =
  name :: string
  shard :: int

text \<open>
  \<^verbatim>\<open>AdminWebServer.authorized_rpc(self, service, method, arguments)\<close>. The body is three
  \<^verbatim>\<open>if\<close> blocks in sequence; a block either returns \<^verbatim>\<open>True\<close> or falls through to the
  next one, and the last statement is \<^verbatim>\<open>return False\<close>. A block is modelled as a
  \<open>bool option\<close>, \<open>None\<close> meaning that control fell through.
\<close>

definition evaluation_block :: "ServiceCoord \<Rightarrow> string \<Rightarrow> bool option" where
  "evaluation_block service method =
     (if service = \<lparr>name = ''EvaluationService'', shard = 0\<rparr> then
        (if method = ''submissions_status'' then Some True
         else if method = ''queue_status'' then Some True
         else if method = ''workers_status'' then Some True
         else None)
      else None)"

definition log_block :: "ServiceCoord \<Rightarrow> string \<Rightarrow> bool option" where
  "log_block service method =
     (if service = \<lparr>name = ''LogService'', shard = 0\<rparr> then
        (if method = ''last_messages'' then Some True else None)
      else None)"

definition resource_block :: "ServiceCoord \<Rightarrow> string \<Rightarrow> bool option" where
  "resource_block service method =
     (if name service = ''ResourceService'' then
        (if method = ''get_resources'' then Some True
         else if method = ''kill_service'' then Some True
         else None)
      else None)"

definition authorized_rpc :: "ServiceCoord \<Rightarrow> string \<Rightarrow> (string \<rightharpoonup> 'v) \<Rightarrow> bool" where
  "authorized_rpc service method arguments =
     (case evaluation_block service method of
        Some r \<Rightarrow> r
      | None \<Rightarrow>
         (case log_block service method of
            Some r \<Rightarrow> r
          | None \<Rightarrow>
             (case resource_block service method of
                Some r \<Rightarrow> r
              | None \<Rightarrow> False)))"

text \<open>
  The allow-list read as a table, to compare the gate against: one row per
  \<^verbatim>\<open>return True\<close> of the source, holding the service name, the shard the row is
  restricted to (\<open>None\<close> when the source tests the name only) and the method name.
\<close>

definition allow_list :: "(string \<times> int option \<times> string) list" where
  "allow_list =
     [(''EvaluationService'', Some 0, ''submissions_status''),
      (''EvaluationService'', Some 0, ''queue_status''),
      (''EvaluationService'', Some 0, ''workers_status''),
      (''LogService'', Some 0, ''last_messages''),
      (''ResourceService'', None, ''get_resources''),
      (''ResourceService'', None, ''kill_service'')]"

fun row_matches :: "ServiceCoord \<Rightarrow> string \<Rightarrow> string \<times> int option \<times> string \<Rightarrow> bool" where
  "row_matches service method (n, None, m) = (name service = n \<and> method = m)"
| "row_matches service method (n, Some k, m) =
     (name service = n \<and> shard service = k \<and> method = m)"

definition allow_listed :: "ServiceCoord \<Rightarrow> string \<Rightarrow> bool" where
  "allow_listed service method = list_ex (row_matches service method) allow_list"

section \<open>Python values, exceptions and outcomes\<close>

text \<open>
  A timestamp is a Python number: \<^verbatim>\<open>time.time()\<close> returns a float, and
  \<^verbatim>\<open>int(time.time())\<close> an integer. The clock reading is an input of every operation
  that calls \<^verbatim>\<open>time.time()\<close>.
\<close>

datatype pynum = PyInt int | PyFloat real

definition time_time :: "real \<Rightarrow> pynum" where
  "time_time now = PyFloat now"

fun py_int :: "pynum \<Rightarrow> pynum" where
  "py_int (PyInt i) = PyInt i"
| "py_int (PyFloat x) = PyInt (if 0 \<le> x then \<lfloor>x\<rfloor> else \<lceil>x\<rceil>)"

fun is_integer :: "pynum \<Rightarrow> bool" where
  "is_integer (PyInt i) = True"
| "is_integer (PyFloat x) = False"

fun num_val :: "pynum \<Rightarrow> real" where
  "num_val (PyInt i) = of_int i"
| "num_val (PyFloat x) = x"

datatype pyval = Str string | Num pynum

datatype pyerr = HTTPError nat | KeyError string | IndexError | ValueError | PyException string

text \<open>
  A method either returns or raises; in both cases the objects it has mutated so far keep
  their new contents, so both outcomes carry the state.
\<close>

datatype 'a outcome = Returned 'a | Raised pyerr 'a

fun state_of :: "'a outcome \<Rightarrow> 'a" where
  "state_of (Returned s) = s"
| "state_of (Raised e s) = s"

fun has_raised :: "'a outcome \<Rightarrow> bool" where
  "has_raised (Returned s) = False"
| "has_raised (Raised e s) = True"

fun error_of :: "'a outcome \<Rightarrow> pyerr option" where
  "error_of (Returned s) = None"
| "error_of (Raised e s) = Some e"

fun and_then :: "'a outcome \<Rightarrow> ('a \<Rightarrow> 'a outcome) \<Rightarrow> 'a outcome" where
  "and_then (Returned s) f = f s"
| "and_then (Raised e s) f = Raised e s"

text \<open>\<^verbatim>\<open>"%s" % n\<close> for an integer \<open>n\<close>: its decimal digits, with a sign when negative.\<close>

fun str_nat :: "nat \<Rightarrow> string" where
  "str_nat n =
     (if n < 10 then [''0123456789'' ! n]
      else str_nat (n div 10) @ [''0123456789'' ! (n mod 10)])"

definition str_int :: "int \<Rightarrow> string" where
  "str_int i = (if i < 0 then CHR ''-'' # str_nat (nat (- i)) else str_nat (nat i))"

definition endswith :: "string \<Rightarrow> string \<Rightarrow> bool" where
  "endswith s suffix =
     (length suffix \<le> length s \<and> drop (length s - length suffix) s = suffix)"

section \<open>The service object and its notification queue\<close>

text \<open>
  A call of \<^verbatim>\<open>FS.put_file\<close>: the correlation tag \<^verbatim>\<open>plus\<close>, the data and the description.
  The file storage client is outside this file; the service records each call together
  with the value it returned (\<open>False\<close> when the call could not be sent).
\<close>

record put_file_call =
  plus_tag :: string
  binary_data :: string
  description :: string

record AdminWebServer =
  notifications :: "(pynum \<times> string \<times> string) list"
  fs_calls :: "(put_file_call \<times> bool) list"

definition add_notification ::
  "pynum \<Rightarrow> string \<Rightarrow> string \<Rightarrow> AdminWebServer \<Rightarrow> AdminWebServer" where
  "add_notification timestamp subj body service =
     service\<lparr>notifications := notifications service @ [(timestamp, subj, body)]\<rparr>"

definition put_file :: "put_file_call \<Rightarrow> bool \<Rightarrow> AdminWebServer \<Rightarrow> AdminWebServer" where
  "put_file call sent service = service\<lparr>fs_calls := fs_calls service @ [(call, sent)]\<rparr>"

section \<open>Polling the notifications\<close>

record Question =
  question_timestamp :: pynum
  reply_timestamp :: "pynum option"
  question_subject :: string
  question_text :: string

definition question_entry :: "Question \<Rightarrow> (string \<times> pyval) list" where
  "question_entry question =
     [(''type'', Str ''new_question''),
      (''timestamp'', Num (question_timestamp question)),
      (''subject'', Str (question_subject question)),
      (''text'', Str (question_text question))]"

definition notification_entry :: "pynum \<times> string \<times> string \<Rightarrow> (string \<times> pyval) list" where
  "notification_entry notification =
     [(''type'', Str ''notification''),
      (''timestamp'', Num (fst notification)),
      (''subject'', Str (fst (snd notification))),
      (''text'', Str (snd (snd notification)))]"

text \<open>
  \<^verbatim>\<open>NotificationsHandler.get\<close>. Its inputs are the request argument
  \<^verbatim>\<open>last_notification\<close> after \<^verbatim>\<open>float(...)\<close> (\<open>None\<close> when the conversion raises
  \<^verbatim>\<open>ValueError\<close>) and the rows of the question table; the query keeps the rows without a
  reply whose timestamp is greater than \<^verbatim>\<open>last_notification\<close>. The result is the list
  handed to \<^verbatim>\<open>self.write(simplejson.dumps(res))\<close> and the service after the call. The
  local \<^verbatim>\<open>timestamp = int(time.time())\<close> is never read and is left out.
\<close>

definition NotificationsHandler_get ::
  "real option \<Rightarrow> Question list \<Rightarrow> AdminWebServer \<Rightarrow>
     ((string \<times> pyval) list list \<times> AdminWebServer) outcome" where
  "NotificationsHandler_get last_notification_arg question_table service =
     (case last_notification_arg of
        None \<Rightarrow> Raised ValueError ([], service)
      | Some last_notification \<Rightarrow>
         (let questions =
                filter (\<lambda>q. num_val (question_timestamp q) > last_notification)
                  (filter (\<lambda>q. reply_timestamp q = None) question_table);
              res = [] @ map question_entry questions;
              res = res @ map notification_entry (notifications service)
          in Returned (res, service\<lparr>notifications := []\<rparr>)))"

definition is_notification :: "(string \<times> pyval) list \<Rightarrow> bool" where
  "is_notification entry = (map_of entry ''type'' = Some (Str ''notification''))"

definition entry_timestamp :: "(string \<times> pyval) list \<Rightarrow> pyval option" where
  "entry_timestamp entry = map_of entry ''timestamp''"

section \<open>Request handlers that store files\<close>

record Task =
  task_id :: int
  task_name :: string
  task_contest :: int
  task_statement :: "string option"
  task_testcases :: nat

record upload =
  filename :: string
  body :: string

text \<open>
  The object built by \<^verbatim>\<open>Testcase(input, output, num, public, task)\<close>; the task is
  represented by its id.
\<close>

datatype dbobject = Testcase "string option" "string option" nat bool int

text \<open>
  The attributes that the modelled handler classes keep on \<^verbatim>\<open>self\<close>, together with what
  the handler has done to its SQL session (objects added, number of commits, whether it
  has been closed), the redirects it has sent and whether its response is finished.
  \<open>input_file\<close> and \<open>output_file\<close> are \<^verbatim>\<open>self.input\<close> and \<^verbatim>\<open>self.output\<close>.
\<close>

record handler =
  task :: Task
  contest :: "int option"
  statement :: upload
  input_file :: upload
  output_file :: upload
  public :: bool
  successful_calls :: "(string option \<times> string option) list"
  sql_added :: "dbobject list"
  sql_commits :: nat
  sql_closed :: bool
  redirects :: "string list"
  finished :: bool

definition sql_add :: "dbobject \<Rightarrow> handler \<Rightarrow> handler" where
  "sql_add obj h = h\<lparr>sql_added := sql_added h @ [obj]\<rparr>"

definition sql_commit :: "handler \<Rightarrow> handler" where
  "sql_commit h = h\<lparr>sql_commits := Suc (sql_commits h)\<rparr>"

text \<open>
  \<^verbatim>\<open>BaseHandler.finish\<close>: it closes the SQL session and then finishes the response. What
  the session does with a later \<^verbatim>\<open>add\<close> or \<^verbatim>\<open>commit\<close> is decided outside this file;
  \<open>sql_add\<close> and \<open>sql_commit\<close> record the calls whether or not it is closed.
\<close>

definition finish :: "handler \<Rightarrow> handler" where
  "finish h = (h\<lparr>sql_closed := True\<rparr>)\<lparr>finished := True\<rparr>"

text \<open>
  \<^verbatim>\<open>self.redirect(url)\<close>, inherited from \<^verbatim>\<open>tornado.web.RequestHandler\<close>: on a handler
  whose response is already out it raises
  \<^verbatim>\<open>Exception("Cannot redirect after headers have been written")\<close> and sends nothing;
  otherwise it sends the redirect and calls \<^verbatim>\<open>self.finish()\<close>. So a handler redirects at
  most once.
\<close>

definition redirect :: "string \<Rightarrow> handler \<Rightarrow> handler outcome" where
  "redirect url h =
     (if finished h then
        Raised (PyException ''Cannot redirect after headers have been written'') h
      else Returned (finish (h\<lparr>redirects := redirects h @ [url]\<rparr>)))"

text \<open>The outcome of a handler method that leaves the service as it is.\<close>

fun with_service ::
  "handler outcome \<Rightarrow> AdminWebServer \<Rightarrow> (handler \<times> AdminWebServer) outcome" where
  "with_service (Returned h) service = Returned (h, service)"
| "with_service (Raised e h) service = Raised e (h, service)"

text \<open>
  The handler that tornado constructs for a request and hands to \<^verbatim>\<open>get\<close> or \<^verbatim>\<open>post\<close>
  after \<^verbatim>\<open>prepare\<close>: no response has been sent and the SQL session is open. The
  attributes that \<^verbatim>\<open>post\<close> sets later are arbitrary.
\<close>

definition new_request :: "handler \<Rightarrow> handler" where
  "new_request h = (h\<lparr>sql_closed := False\<rparr>)\<lparr>finished := False\<rparr>"

text \<open>\<^verbatim>\<open>self.request.files[key][0]\<close>.\<close>

definition request_file :: "(string \<times> upload list) list \<Rightarrow> string \<Rightarrow> pyerr + upload" where
  "request_file files key =
     (case map_of files key of
        None \<Rightarrow> Inl (KeyError key)
      | Some [] \<Rightarrow> Inl IndexError
      | Some (f # fs) \<Rightarrow> Inr f)"

subsection \<open>AddStatementHandler\<close>

definition AddStatementHandler_storage_callback ::
  "real \<Rightarrow> string option \<Rightarrow> string option \<Rightarrow> string option \<Rightarrow>
     handler \<times> AdminWebServer \<Rightarrow> (handler \<times> AdminWebServer) outcome" where
  "AddStatementHandler_storage_callback now data plus' error =
     (\<lambda>(h, service).
        case error of
          None \<Rightarrow>
            with_service
              (redirect (''/task/'' @ str_int (task_id (task h)))
                 (sql_commit (h\<lparr>task := (task h)\<lparr>task_statement := data\<rparr>\<rparr>)))
              service
        | Some err \<Rightarrow>
            (let service =
                   add_notification (time_time now) ''Task statement storage failed'' err
                     service
             in with_service
                  (redirect (''/add_statement/'' @ str_int (task_id (task h))) h) service))"

text \<open>
  \<^verbatim>\<open>AddStatementHandler.post\<close>. Inputs: the result of \<^verbatim>\<open>Task.get_from_id\<close>, the uploaded
  files of the request, the value returned by \<^verbatim>\<open>put_file\<close> (\<open>False\<close> for the source's
  \<^verbatim>\<open>== False\<close>) and the clock.
\<close>

definition AddStatementHandler_post ::
  "Task option \<Rightarrow> (string \<times> upload list) list \<Rightarrow> bool \<Rightarrow> real \<Rightarrow>
     handler \<times> AdminWebServer \<Rightarrow> (handler \<times> AdminWebServer) outcome" where
  "AddStatementHandler_post found files sent now =
     (\<lambda>(h, service).
        case found of
          None \<Rightarrow> Raised (HTTPError 404) (h, service)
        | Some t \<Rightarrow>
            (let h = h\<lparr>task := t, contest := Some (task_contest t)\<rparr> in
             case request_file files ''statement'' of
               Inl e \<Rightarrow> Raised e (h, service)
             | Inr st \<Rightarrow>
                 (let h = h\<lparr>statement := st\<rparr> in
                  if \<not> endswith (filename (statement h)) ''.pdf'' then
                    (let service =
                           add_notification (time_time now) ''Invalid task statement''
                             ''The task statement must be a .pdf file.'' service
                     in with_service
                          (redirect (''/add_statement/'' @ str_int (task_id (task h))) h)
                          service)
                  else
                    (let service =
                           put_file
                             \<lparr>plus_tag = filename (statement h),
                              binary_data = body (statement h),
                              description = ''Task statement for '' @ task_name (task h)\<rparr>
                             sent service
                     in if sent = False then
                          AddStatementHandler_storage_callback now None None
                            (Some ''Connection failed.'') (h, service)
                        else Returned (h, service)))))"

subsection \<open>AddTestcaseHandler\<close>

text \<open>
  \<^verbatim>\<open>self.successful_calls\<close> is a dictionary, kept as an association list with one pair
  per key: \<open>AList.update\<close> is the assignment \<^verbatim>\<open>d[k] = v\<close>, \<open>length\<close> is \<^verbatim>\<open>len(d)\<close>, and
  a lookup of a missing key raises \<^verbatim>\<open>KeyError\<close>. The arguments of the \<^verbatim>\<open>Testcase\<close>
  constructor are evaluated from left to right.
\<close>

definition AddTestcaseHandler_storage_callback ::
  "real \<Rightarrow> string option \<Rightarrow> string option \<Rightarrow> string option \<Rightarrow>
     handler \<times> AdminWebServer \<Rightarrow> (handler \<times> AdminWebServer) outcome" where
  "AddTestcaseHandler_storage_callback now data plus' error =
     (\<lambda>(h, service).
        case error of
          None \<Rightarrow>
            (let h = h\<lparr>successful_calls := AList.update plus' data (successful_calls h)\<rparr> in
             if length (successful_calls h) \<ge> 2 then
               (case map_of (successful_calls h) (Some ''input'') of
                  None \<Rightarrow> Raised (KeyError ''input'') (h, service)
                | Some i \<Rightarrow>
                    (case map_of (successful_calls h) (Some ''output'') of
                       None \<Rightarrow> Raised (KeyError ''output'') (h, service)
                     | Some out \<Rightarrow>
                         with_service
                           (redirect (''/task/'' @ str_int (task_id (task h)))
                              (sql_commit
                                 (sql_add
                                    (Testcase i out (task_testcases (task h)) (public h)
                                       (task_id (task h)))
                                    h)))
                           service))
             else Returned (h, service))
        | Some err \<Rightarrow>
            (let service =
                   add_notification (time_time now) ''Testcase storage failed'' err service
             in with_service
                  (redirect (''/add_testcase/'' @ str_int (task_id (task h))) h) service))"

text \<open>
  \<^verbatim>\<open>AddTestcaseHandler.post\<close>. Inputs: the result of \<^verbatim>\<open>Task.get_from_id\<close>, the uploaded
  files, the request argument \<^verbatim>\<open>public\<close>, and for each of the two \<^verbatim>\<open>put_file\<close> calls the
  value it returned and the clock at that moment. The two \<^verbatim>\<open>put_file\<close> blocks of the
  source differ in the tag and the file only (the description is
  \<^verbatim>\<open>"Testcase input for task %s"\<close>, then \<^verbatim>\<open>"Testcase output for task %s"\<close>); they are
  the two calls of \<open>put_testcase_file\<close>.
\<close>

definition put_testcase_file ::
  "string \<Rightarrow> upload \<Rightarrow> bool \<Rightarrow> real \<Rightarrow>
     handler \<times> AdminWebServer \<Rightarrow> (handler \<times> AdminWebServer) outcome" where
  "put_testcase_file plus' file sent now =
     (\<lambda>(h, service).
        let service =
              put_file
                \<lparr>plus_tag = plus',
                 binary_data = body file,
                 description = ''Testcase '' @ plus' @ '' for task '' @ task_name (task h)\<rparr>
                sent service
        in if sent = False then
             AddTestcaseHandler_storage_callback now None None
               (Some ''Connection failed.'') (h, service)
           else Returned (h, service))"

definition AddTestcaseHandler_post ::
  "Task option \<Rightarrow> (string \<times> upload list) list \<Rightarrow> string option \<Rightarrow>
     bool \<times> real \<Rightarrow> bool \<times> real \<Rightarrow>
     handler \<times> AdminWebServer \<Rightarrow> (handler \<times> AdminWebServer) outcome" where
  "AddTestcaseHandler_post found files public_arg put_input put_output =
     (\<lambda>(h, service).
        case found of
          None \<Rightarrow> Raised (HTTPError 404) (h, service)
        | Some t \<Rightarrow>
            (let h = h\<lparr>task := t, contest := Some (task_contest t)\<rparr> in
             case request_file files ''input'' of
               Inl e \<Rightarrow> Raised e (h, service)
             | Inr file_in \<Rightarrow>
                 (let h = h\<lparr>input_file := file_in\<rparr> in
                  case request_file files ''output'' of
                    Inl e \<Rightarrow> Raised e (h, service)
                  | Inr file_out \<Rightarrow>
                      (let h = h\<lparr>output_file := file_out\<rparr>;
                           h = h\<lparr>public := (public_arg \<noteq> None)\<rparr>;
                           h = h\<lparr>successful_calls := []\<rparr>
                       in and_then
                            (put_testcase_file ''input'' (input_file h)
                               (fst put_input) (snd put_input) (h, service))
                            (\<lambda>(h, service).
                               put_testcase_file ''output'' (output_file h)
                                 (fst put_output) (snd put_output) (h, service))))))"

section \<open>Runs of the handlers\<close>

text \<open>
  The entries of a poll that come from the notification queue: those whose
  \<^verbatim>\<open>"type"\<close> is \<^verbatim>\<open>"notification"\<close>.
\<close>

definition drained ::
  "((string \<times> pyval) list list \<times> AdminWebServer) outcome \<Rightarrow> (string \<times> pyval) list list" where
  "drained r = filter is_notification (fst (state_of r))"

text \<open>
  An upload session is the handler of a new request after \<^verbatim>\<open>AddTestcaseHandler.post\<close>
  has sent both \<^verbatim>\<open>put_file\<close> calls. The file storage client later calls
  \<^verbatim>\<open>storage_callback(data, plus)\<close> for a stored file and
  \<^verbatim>\<open>storage_callback(None, plus, error)\<close> for a failed call; \<open>report_success\<close> and
  \<open>report_failure\<close> are the states these two calls leave.
\<close>

definition testcase_session ::
  "Task \<Rightarrow> upload \<Rightarrow> upload \<Rightarrow> string option \<Rightarrow> real \<Rightarrow> real \<Rightarrow>
     handler \<times> AdminWebServer \<Rightarrow> handler \<times> AdminWebServer" where
  "testcase_session t file_in file_out public_arg now1 now2 s =
     state_of
       (AddTestcaseHandler_post (Some t) [(''input'', [file_in]), (''output'', [file_out])]
          public_arg (True, now1) (True, now2) (new_request (fst s), snd s))"

definition report_success ::
  "real \<Rightarrow> string \<Rightarrow> string \<Rightarrow> handler \<times> AdminWebServer \<Rightarrow> handler \<times> AdminWebServer" where
  "report_success now tag content_id s =
     state_of (AddTestcaseHandler_storage_callback now (Some content_id) (Some tag) None s)"


text \<open>A concrete task, handler and service, for closed instances.\<close>

definition example_task :: Task where
  "example_task =
     \<lparr>task_id = 1, task_name = ''sum'', task_contest = 1, task_statement = None,
      task_testcases = 0\<rparr>"

definition example_handler :: handler where
  "example_handler =
     \<lparr>task = example_task, contest = None,
      statement = \<lparr>filename = [], body = []\<rparr>,
      input_file = \<lparr>filename = [], body = []\<rparr>,
      output_file = \<lparr>filename = [], body = []\<rparr>,
      public = False, successful_calls = [], sql_added = [], sql_commits = 0,
      sql_closed = False, redirects = [], finished = False\<rparr>"

definition example_service :: AdminWebServer where
  "example_service = \<lparr>notifications = [], fs_calls = []\<rparr>"

definition example_session :: "handler \<times> AdminWebServer" where
  "example_session =
     testcase_session example_task \<lparr>filename = ''1.in'', body = ''3 4''\<rparr>
       \<lparr>filename = ''1.out'', body = ''7''\<rparr> None 10 11 (example_handler, example_service)"

section \<open>The authorization gate: theorems\<close>

lemma ServiceCoord_eq_iff:
  "(service = \<lparr>name = n, shard = k\<rparr>) = (name service = n \<and> shard service = k)"
  by (cases service) simp

lemma authorized_rpc_allow_listed:
  "authorized_rpc service method arguments = allow_listed service method"
  by (auto simp: authorized_rpc_def evaluation_block_def log_block_def resource_block_def
      allow_listed_def allow_list_def ServiceCoord_eq_iff)

text \<open>
  Claim C3. The gate denies by default: a service and method that match no row of the
  allow-list get \<open>False\<close>. At the evaluation service, shard 0, the method
  \<^verbatim>\<open>shutdown\<close> is denied and the method \<^verbatim>\<open>queue_status\<close> is allowed.
\<close>

theorem authorized_rpc_default_deny:
  "(\<not> allow_listed service method \<longrightarrow> authorized_rpc service method arguments = False)
   \<and> authorized_rpc \<lparr>name = ''EvaluationService'', shard = 0\<rparr> ''shutdown'' arguments = False
   \<and> authorized_rpc \<lparr>name = ''EvaluationService'', shard = 0\<rparr> ''queue_status'' arguments = True"
  by (simp add: authorized_rpc_allow_listed)
     (simp add: allow_listed_def allow_list_def)

theorem authorized_rpc_default_deny_witness:
  "\<not> allow_listed \<lparr>name = ''LogService'', shard = 1\<rparr> ''last_messages''
   \<and> authorized_rpc \<lparr>name = ''LogService'', shard = 1\<rparr> ''last_messages''
        (Map.empty :: string \<rightharpoonup> string) = False"
  using authorized_rpc_default_deny
    [of "\<lparr>name = ''LogService'', shard = 1\<rparr>" "''last_messages''"
        "Map.empty :: string \<rightharpoonup> string"]
  by (simp add: allow_listed_def allow_list_def)

text \<open>
  Claim C4. The gate is a total function to \<open>bool\<close> with no failing branch, and its
  result is the same for any two argument dictionaries.
\<close>

theorem authorized_rpc_ignores_arguments:
  "authorized_rpc service method a1 = authorized_rpc service method a2
   \<and> authorized_rpc service method a1 \<in> {True, False}"
  by (auto simp: authorized_rpc_def)

text \<open>
  Claim C10. \<^verbatim>\<open>kill_service\<close> is allowed on every shard of the resource service,
  whatever the arguments, while every method allowed on the evaluation service or on the
  log service is allowed on shard 0 only.
\<close>

theorem kill_service_every_shard:
  "0 \<le> s \<Longrightarrow>
     authorized_rpc \<lparr>name = ''ResourceService'', shard = s\<rparr> ''kill_service'' arguments = True
     \<and> authorized_rpc \<lparr>name = ''EvaluationService'', shard = s\<rparr> method arguments = (s = 0 \<and> method \<in> {''submissions_status'', ''queue_status'', ''workers_status''})
     \<and> authorized_rpc \<lparr>name = ''LogService'', shard = s\<rparr> method arguments = (s = 0 \<and> method = ''last_messages'')"
  by (auto simp: authorized_rpc_def evaluation_block_def log_block_def resource_block_def)

theorem kill_service_every_shard_witness:
  "(0::int) \<le> 7
   \<and> authorized_rpc \<lparr>name = ''ResourceService'', shard = 7\<rparr> ''kill_service''
        (Map.empty :: string \<rightharpoonup> string) = True
   \<and> authorized_rpc \<lparr>name = ''EvaluationService'', shard = 7\<rparr> ''queue_status''
        (Map.empty :: string \<rightharpoonup> string) = False"
  using kill_service_every_shard
    [of 7 "Map.empty :: string \<rightharpoonup> string" "''queue_status''"]
  by simp

section \<open>The notification queue: theorems\<close>

lemma filter_question_entries:
  "filter is_notification (map question_entry qs) = []"
  by (induction qs) (simp_all add: is_notification_def question_entry_def)

lemma filter_notification_entries:
  "filter is_notification (map notification_entry ns) = map notification_entry ns"
  by (induction ns) (simp_all add: is_notification_def notification_entry_def)

lemma entry_timestamp_notification:
  "entry_timestamp (notification_entry n) = Some (Num (fst n))"
  by (simp add: entry_timestamp_def notification_entry_def)

lemma get_drains_queue:
  "drained (NotificationsHandler_get (Some since) question_table service)
     = map notification_entry (notifications service)
   \<and> snd (state_of (NotificationsHandler_get (Some since) question_table service))
       = service\<lparr>notifications := []\<rparr>
   \<and> has_raised (NotificationsHandler_get (Some since) question_table service) = False"
  by (simp add: NotificationsHandler_get_def drained_def filter_notification_entries
      filter_question_entries Let_def)

text \<open>
  Claim C5. A poll returns the queued notifications in the order in which they were
  appended and leaves the queue empty, so the next poll returns none of them again. After
  notifications with timestamps 1, 2, 3 are appended to an empty queue, a poll returns
  them with timestamps 1, 2, 3; after timestamp 4 is appended, the next poll returns
  exactly the one with timestamp 4. With no unanswered question, the response is the
  queue, entry by entry.
\<close>

theorem drain_in_append_order_once:
  "drained (NotificationsHandler_get (Some since) question_table service)
     = map notification_entry (notifications service)
   \<and> notifications (snd (state_of (NotificationsHandler_get (Some since) question_table service)))
       = []
   \<and> fst (state_of (NotificationsHandler_get (Some since) [] service))
       = map notification_entry (notifications service)
   \<and> (let s3 = add_notification (PyInt 3) subj3 body3
                 (add_notification (PyInt 2) subj2 body2
                    (add_notification (PyInt 1) subj1 body1
                       (service\<lparr>notifications := []\<rparr>)));
           r1 = NotificationsHandler_get (Some since) question_table s3;
           s4 = add_notification (PyInt 4) subj4 body4 (snd (state_of r1));
           r2 = NotificationsHandler_get (Some since') question_table' s4
       in map entry_timestamp (drained r1)
            = [Some (Num (PyInt 1)), Some (Num (PyInt 2)), Some (Num (PyInt 3))]
          \<and> map entry_timestamp (drained r2) = [Some (Num (PyInt 4))])"
proof -
  have "fst (state_of (NotificationsHandler_get (Some since) [] service))
       = map notification_entry (notifications service)"
    by (simp add: NotificationsHandler_get_def)
  then show ?thesis
    by (simp add: get_drains_queue add_notification_def entry_timestamp_notification Let_def)
qed

text \<open>
  Claim C8. The argument \<^verbatim>\<open>last_notification\<close> selects among the unanswered
  questions only: for any two values of it, a poll returns the same queued
  notifications, namely the whole queue, and leaves the same (emptied) service, while
  the other entries of the response are the unanswered questions later than the value.
\<close>

theorem since_filters_questions_only:
  "drained (NotificationsHandler_get (Some since1) question_table service)
     = drained (NotificationsHandler_get (Some since2) question_table service)
   \<and> drained (NotificationsHandler_get (Some since1) question_table service)
       = map notification_entry (notifications service)
   \<and> snd (state_of (NotificationsHandler_get (Some since1) question_table service))
       = snd (state_of (NotificationsHandler_get (Some since2) question_table service))
   \<and> notifications (snd (state_of (NotificationsHandler_get (Some since1) question_table service)))
       = []
   \<and> take (length (fst (state_of (NotificationsHandler_get (Some since1) question_table service)))
              - length (notifications service))
         (fst (state_of (NotificationsHandler_get (Some since1) question_table service)))
       = map question_entry
           (filter (\<lambda>q. reply_timestamp q = None \<and> num_val (question_timestamp q) > since1)
              question_table)"
proof -
  have "take (length (fst (state_of (NotificationsHandler_get (Some since1) question_table service)))
              - length (notifications service))
         (fst (state_of (NotificationsHandler_get (Some since1) question_table service)))
       = map question_entry
           (filter (\<lambda>q. reply_timestamp q = None \<and> num_val (question_timestamp q) > since1)
              question_table)"
    by (simp add: NotificationsHandler_get_def)
  then show ?thesis
    by (simp add: get_drains_queue)
qed

section \<open>The upload session: theorems\<close>

lemma snd_with_service: "snd (state_of (with_service r service)) = service"
  by (cases r) simp_all

lemma fst_with_service: "fst (state_of (with_service r service)) = state_of r"
  by (cases r) simp_all

lemma has_raised_with_service: "has_raised (with_service r service) = has_raised r"
  by (cases r) simp_all

lemma redirect_new:
  "finished h = False \<Longrightarrow>
   redirect url h
     = Returned (h\<lparr>sql_closed := True, redirects := redirects h @ [url], finished := True\<rparr>)"
  by (simp add: redirect_def finish_def)

lemma redirect_again:
  "finished h = True \<Longrightarrow>
   redirect url h = Raised (PyException ''Cannot redirect after headers have been written'') h"
  by (simp add: redirect_def)

lemma post_both_sent:
  "AddTestcaseHandler_post (Some t) [(''input'', [file_in]), (''output'', [file_out])]
          public_arg (True, now1) (True, now2) (h, service)
   = Returned
       (h\<lparr>task := t, contest := Some (task_contest t), input_file := file_in,
           output_file := file_out, public := (public_arg \<noteq> None), successful_calls := []\<rparr>,
        service\<lparr>fs_calls := fs_calls service @
           [(\<lparr>plus_tag = ''input'', binary_data = body file_in,
              description = ''Testcase input for task '' @ task_name t\<rparr>, True),
            (\<lparr>plus_tag = ''output'', binary_data = body file_out,
              description = ''Testcase output for task '' @ task_name t\<rparr>, True)]\<rparr>)"
  by (simp add: AddTestcaseHandler_post_def request_file_def put_testcase_file_def put_file_def)

lemma failure_branch:
  "AddTestcaseHandler_storage_callback now data plus' (Some err) (h, service)
   = with_service (redirect (''/add_testcase/'' @ str_int (task_id (task h))) h)
       (service\<lparr>notifications := notifications service @
           [(PyFloat now, ''Testcase storage failed'', err)]\<rparr>)"
  by (simp add: AddTestcaseHandler_storage_callback_def add_notification_def time_time_def)

lemma first_success:
  "successful_calls h = [] \<Longrightarrow>
   AddTestcaseHandler_storage_callback now data plus' None (h, service)
   = Returned (h\<lparr>successful_calls := [(plus', data)]\<rparr>, service)"
  by (simp add: AddTestcaseHandler_storage_callback_def)

lemma second_success_output:
  "successful_calls h = [(Some ''input'', i)] \<Longrightarrow>
   AddTestcaseHandler_storage_callback now out (Some ''output'') None (h, service)
   = with_service
       (redirect (''/task/'' @ str_int (task_id (task h)))
          (h\<lparr>successful_calls := [(Some ''input'', i), (Some ''output'', out)],
             sql_added := sql_added h @ [Testcase i out (task_testcases (task h)) (public h) (task_id (task h))],
             sql_commits := Suc (sql_commits h)\<rparr>))
       service"
  by (simp add: AddTestcaseHandler_storage_callback_def sql_add_def sql_commit_def)

lemma second_success_input:
  "successful_calls h = [(Some ''output'', out)] \<Longrightarrow>
   AddTestcaseHandler_storage_callback now i (Some ''input'') None (h, service)
   = with_service
       (redirect (''/task/'' @ str_int (task_id (task h)))
          (h\<lparr>successful_calls := [(Some ''output'', out), (Some ''input'', i)],
             sql_added := sql_added h @ [Testcase i out (task_testcases (task h)) (public h) (task_id (task h))],
             sql_commits := Suc (sql_commits h)\<rparr>))
       service"
  by (simp add: AddTestcaseHandler_storage_callback_def sql_add_def sql_commit_def)

lemma testcase_session_eq:
  "testcase_session t file_in file_out public_arg now1 now2 (h, service)
   = (h\<lparr>task := t, contest := Some (task_contest t), input_file := file_in,
         output_file := file_out, public := (public_arg \<noteq> None), successful_calls := [],
         sql_closed := False, finished := False\<rparr>,
      service\<lparr>fs_calls := fs_calls service @
           [(\<lparr>plus_tag = ''input'', binary_data = body file_in,
              description = ''Testcase input for task '' @ task_name t\<rparr>, True),
            (\<lparr>plus_tag = ''output'', binary_data = body file_out,
              description = ''Testcase output for task '' @ task_name t\<rparr>, True)]\<rparr>)"
  by (simp add: testcase_session_def post_both_sent new_request_def)

lemma example_session_eq:
  "example_session =
    (example_handler\<lparr>task := example_task, contest := Some 1,
        input_file := \<lparr>filename = ''1.in'', body = ''3 4''\<rparr>,
        output_file := \<lparr>filename = ''1.out'', body = ''7''\<rparr>,
        public := False, successful_calls := []\<rparr>,
     example_service\<lparr>fs_calls :=
           [(\<lparr>plus_tag = ''input'', binary_data = ''3 4'',
              description = ''Testcase input for task sum''\<rparr>, True),
            (\<lparr>plus_tag = ''output'', binary_data = ''7'',
              description = ''Testcase output for task sum''\<rparr>, True)]\<rparr>)"
  by (simp add: example_session_def testcase_session_eq example_task_def example_service_def
      example_handler_def)

lemma statement_failure_branch:
  "AddStatementHandler_storage_callback now data plus' (Some err) (h, service)
   = with_service (redirect (''/add_statement/'' @ str_int (task_id (task h))) h)
       (service\<lparr>notifications := notifications service @
           [(PyFloat now, ''Task statement storage failed'', err)]\<rparr>)"
  by (simp add: AddStatementHandler_storage_callback_def add_notification_def time_time_def)

lemma endswith_append: "endswith (base @ suffix) suffix"
  by (simp add: endswith_def)

lemma length_dict_update:
  "length (AList.update k v al)
     = (if k \<in> fst ` set al then length al else Suc (length al))"
  by (induction al) auto

lemma redirect_keeps:
  "successful_calls (state_of (redirect url h)) = successful_calls h
   \<and> sql_added (state_of (redirect url h)) = sql_added h
   \<and> sql_commits (state_of (redirect url h)) = sql_commits h
   \<and> task (state_of (redirect url h)) = task h
   \<and> output_file (state_of (redirect url h)) = output_file h
   \<and> has_raised (redirect url h) = finished h
   \<and> finished (state_of (redirect url h)) = True
   \<and> redirects (state_of (redirect url h))
       = (if finished h then redirects h else redirects h @ [url])"
  by (simp add: redirect_def finish_def)

lemma callback_successful_calls:
  "successful_calls (fst (state_of (AddTestcaseHandler_storage_callback now data plus' None (h, service))))
     = AList.update plus' data (successful_calls h)"
  by (simp add: AddTestcaseHandler_storage_callback_def fst_with_service redirect_keeps
      sql_add_def sql_commit_def Let_def split: option.splits)

lemma callback_success_service:
  "snd (state_of (AddTestcaseHandler_storage_callback now data plus' None (h, service))) = service"
  by (simp add: AddTestcaseHandler_storage_callback_def snd_with_service Let_def
      split: option.splits)

lemma callback_success_raises:
  "has_raised (AddTestcaseHandler_storage_callback now data plus' None (h, service))
     = (2 \<le> length (AList.update plus' data (successful_calls h))
        \<and> (map_of (AList.update plus' data (successful_calls h)) (Some ''input'') = None
           \<or> map_of (AList.update plus' data (successful_calls h)) (Some ''output'') = None
           \<or> finished h))"
  by (auto simp: AddTestcaseHandler_storage_callback_def has_raised_with_service redirect_keeps
      sql_add_def sql_commit_def Let_def split: option.splits)

lemma callback_success_added:
  "sql_added (fst (state_of (AddTestcaseHandler_storage_callback now data plus' None (h, service))))
     = (case (map_of (AList.update plus' data (successful_calls h)) (Some ''input''),
              map_of (AList.update plus' data (successful_calls h)) (Some ''output'')) of
          (Some i, Some out) \<Rightarrow>
            (if 2 \<le> length (AList.update plus' data (successful_calls h))
             then sql_added h @ [Testcase i out (task_testcases (task h)) (public h) (task_id (task h))]
             else sql_added h)
        | _ \<Rightarrow> sql_added h)"
  by (simp add: AddTestcaseHandler_storage_callback_def fst_with_service redirect_keeps
      sql_add_def sql_commit_def Let_def split: option.splits)

lemma put_testcase_file_calls:
  "fs_calls (snd (state_of (put_testcase_file tag file sent now (h, service))))
     = fs_calls service @ [(\<lparr>plus_tag = tag, binary_data = body file,
          description = ''Testcase '' @ tag @ '' for task '' @ task_name (task h)\<rparr>, sent)]"
  by (cases sent) (simp_all add: put_testcase_file_def put_file_def failure_branch snd_with_service)

lemma put_testcase_file_handler:
  "output_file (fst (state_of (put_testcase_file tag file sent now (h, service)))) = output_file h
   \<and> task (fst (state_of (put_testcase_file tag file sent now (h, service)))) = task h"
  by (cases sent)
     (simp_all add: put_testcase_file_def put_file_def failure_branch fst_with_service
        redirect_keeps)

lemma fs_calls_and_then:
  "fs_calls (snd (state_of (and_then r f)))
     = (case r of Returned s \<Rightarrow> fs_calls (snd (state_of (f s)))
                | Raised e s \<Rightarrow> fs_calls (snd s))"
  by (cases r) simp_all

lemma post_issued_tags:
  "plus_tag ` fst ` set (drop (length (fs_calls service))
      (fs_calls (snd (state_of
         (AddTestcaseHandler_post found files public_arg put_input put_output (h, service))))))
     \<subseteq> {''input'', ''output''}"
proof (cases found)
  case None
  then show ?thesis by (simp add: AddTestcaseHandler_post_def)
next
  case (Some t)
  show ?thesis
  proof (cases "request_file files ''input''")
    case (Inl e)
    with Some show ?thesis by (simp add: AddTestcaseHandler_post_def)
  next
    case in_ok: (Inr file_in)
    show ?thesis
    proof (cases "request_file files ''output''")
      case (Inl e)
      with Some in_ok show ?thesis by (simp add: AddTestcaseHandler_post_def)
    next
      case (Inr file_out)
      define h3 where "h3 = h\<lparr>task := t, contest := Some (task_contest t), input_file := file_in,
        output_file := file_out, public := (public_arg \<noteq> None), successful_calls := []\<rparr>"
      define r1 where "r1 = put_testcase_file ''input'' file_in (fst put_input) (snd put_input) (h3, service)"
      have c1: "fs_calls (snd (state_of r1)) = fs_calls service @ [(\<lparr>plus_tag = ''input'', binary_data = body file_in,
          description = ''Testcase '' @ ''input'' @ '' for task '' @ task_name (task h3)\<rparr>, fst put_input)]"
        unfolding r1_def by (rule put_testcase_file_calls)
      have post: "AddTestcaseHandler_post found files public_arg put_input put_output (h, service)
          = and_then r1 (\<lambda>(h, service).
               put_testcase_file ''output'' (output_file h) (fst put_output) (snd put_output) (h, service))"
        using Some in_ok Inr by (simp add: AddTestcaseHandler_post_def h3_def r1_def)
      show ?thesis
      proof (cases r1)
        case (Returned s)
        obtain h4 service4 where s: "s = (h4, service4)" by (cases s)
        from Returned s c1 post show ?thesis
          by (simp add: put_testcase_file_calls)
      next
        case (Raised e s)
        with c1 post show ?thesis by simp
      qed
    qed
  qed
qed

text \<open>
  Claim C2. In a session begun by \<^verbatim>\<open>post\<close> with both calls sent, when \<^verbatim>\<open>"input"\<close>
  reports success with \<open>d1\<close> and \<^verbatim>\<open>"output"\<close> with \<open>d2\<close>, in either order, nothing is
  added or committed by \<^verbatim>\<open>post\<close> or by the first report, and the second report adds
  exactly one \<^verbatim>\<open>Testcase\<close>, with input \<open>d1\<close> and output \<open>d2\<close>, and commits once.
\<close>

theorem both_successes_fire_once:
  "(let s0 = testcase_session t file_in file_out public_arg now1 now2 (h, service);
        r1 = AddTestcaseHandler_storage_callback now3 (Some d1) (Some ''input'') None s0;
        r2 = AddTestcaseHandler_storage_callback now4 (Some d2) (Some ''output'') None (state_of r1)
    in sql_added (fst s0) = sql_added h \<and> sql_commits (fst s0) = sql_commits h
       \<and> has_raised r1 = False
       \<and> sql_added (fst (state_of r1)) = sql_added h
       \<and> sql_commits (fst (state_of r1)) = sql_commits h
       \<and> has_raised r2 = False
       \<and> sql_added (fst (state_of r2))
           = sql_added h @ [Testcase (Some d1) (Some d2) (task_testcases t) (public_arg \<noteq> None) (task_id t)]
       \<and> sql_commits (fst (state_of r2)) = Suc (sql_commits h))
   \<and>
   (let s0 = testcase_session t file_in file_out public_arg now1 now2 (h, service);
        r1 = AddTestcaseHandler_storage_callback now3 (Some d2) (Some ''output'') None s0;
        r2 = AddTestcaseHandler_storage_callback now4 (Some d1) (Some ''input'') None (state_of r1)
    in has_raised r1 = False
       \<and> sql_added (fst (state_of r1)) = sql_added h
       \<and> sql_commits (fst (state_of r1)) = sql_commits h
       \<and> has_raised r2 = False
       \<and> sql_added (fst (state_of r2))
           = sql_added h @ [Testcase (Some d1) (Some d2) (task_testcases t) (public_arg \<noteq> None) (task_id t)]
       \<and> sql_commits (fst (state_of r2)) = Suc (sql_commits h))"
  by (simp add: testcase_session_eq first_success second_success_output
      second_success_input redirect_new Let_def)



text \<open>
  Claim C7, as stated, fails. In the concrete session a success report with the tag
  \<^verbatim>\<open>"extra"\<close> that arrives first returns normally and is recorded in
  \<^verbatim>\<open>successful_calls\<close>; nothing else changes, so nothing is queued or rejected.
\<close>

theorem unexpected_tag_recorded_counterexample:
  "AddTestcaseHandler_storage_callback 12 (Some ''d9'') (Some ''extra'') None example_session
     = Returned
        ((fst example_session)\<lparr>successful_calls := [(Some ''extra'', Some ''d9'')]\<rparr>,
         snd example_session)"
  by (simp add: example_session_eq first_success)

text \<open>
  Claim C7, amended. \<^verbatim>\<open>storage_callback\<close> does not check the tag: a success report is
  recorded in \<^verbatim>\<open>successful_calls\<close> under whatever tag it carries, it counts towards
  \<^verbatim>\<open>len(self.successful_calls)\<close> when the tag is new, and the service (so the
  notification queue) is unchanged. The report raises exactly when two or more tags are
  then recorded and \<^verbatim>\<open>"input"\<close> or \<^verbatim>\<open>"output"\<close> is not among them (a \<^verbatim>\<open>KeyError\<close>
  at the lookup, with no \<^verbatim>\<open>Testcase\<close> added) or the response is already finished;
  otherwise it returns. So \<^verbatim>\<open>"extra"\<close> arriving after \<^verbatim>\<open>"input"\<close> is stopped by the
  \<^verbatim>\<open>KeyError\<close> for \<^verbatim>\<open>"output"\<close>, not by a check of the tag. The tags come from
  \<^verbatim>\<open>post\<close>, whose \<^verbatim>\<open>put_file\<close> calls carry only \<^verbatim>\<open>"input"\<close> and \<^verbatim>\<open>"output"\<close>.
\<close>

theorem success_report_tag_unchecked:
  "(let calls = AList.update plus' data (successful_calls h);
        r = AddTestcaseHandler_storage_callback now data plus' None (h, service)
    in successful_calls (fst (state_of r)) = calls
       \<and> map_of calls plus' = Some data
       \<and> length calls
           = (if plus' \<in> fst ` set (successful_calls h) then length (successful_calls h)
              else Suc (length (successful_calls h)))
       \<and> snd (state_of r) = service
       \<and> has_raised r
           = (2 \<le> length calls
              \<and> (map_of calls (Some ''input'') = None
                 \<or> map_of calls (Some ''output'') = None
                 \<or> finished h))
       \<and> sql_added (fst (state_of r))
           = (if length calls < 2 \<or> map_of calls (Some ''input'') = None
                 \<or> map_of calls (Some ''output'') = None
              then sql_added h
              else sql_added h @
                [Testcase (the (map_of calls (Some ''input''))) (the (map_of calls (Some ''output'')))
                   (task_testcases (task h)) (public h) (task_id (task h))]))
   \<and>
   (let s1 = report_success now3 ''input'' d1
               (testcase_session t file_in file_out public_arg now1 now2 (h, service));
        r2 = AddTestcaseHandler_storage_callback now4 (Some d9) (Some ''extra'') None s1
    in r2 = Raised (KeyError ''output'')
              ((fst s1)\<lparr>successful_calls :=
                  [(Some ''input'', Some d1), (Some ''extra'', Some d9)]\<rparr>, snd s1)
       \<and> sql_added (fst (state_of r2)) = sql_added h
       \<and> notifications (snd (state_of r2)) = notifications service)
   \<and> plus_tag ` fst ` set (drop (length (fs_calls service))
        (fs_calls (snd (state_of
           (AddTestcaseHandler_post found files public_arg put_input put_output (h, service))))))
       \<subseteq> {''input'', ''output''}"
proof -
  have general:
    "successful_calls (fst (state_of (AddTestcaseHandler_storage_callback now data plus' None (h, service))))
       = AList.update plus' data (successful_calls h)"
    "snd (state_of (AddTestcaseHandler_storage_callback now data plus' None (h, service))) = service"
    by (rule callback_successful_calls, rule callback_success_service)
  have added:
    "sql_added (fst (state_of (AddTestcaseHandler_storage_callback now data plus' None (h, service))))
       = (if length (AList.update plus' data (successful_calls h)) < 2
             \<or> map_of (AList.update plus' data (successful_calls h)) (Some ''input'') = None
             \<or> map_of (AList.update plus' data (successful_calls h)) (Some ''output'') = None
          then sql_added h
          else sql_added h @
            [Testcase (the (map_of (AList.update plus' data (successful_calls h)) (Some ''input'')))
               (the (map_of (AList.update plus' data (successful_calls h)) (Some ''output'')))
               (task_testcases (task h)) (public h) (task_id (task h))])"
    unfolding callback_success_added by (auto split: option.splits)
  have extra:
    "AddTestcaseHandler_storage_callback now4 (Some d9) (Some ''extra'') None
        (report_success now3 ''input'' d1
           (testcase_session t file_in file_out public_arg now1 now2 (h, service)))
     = Raised (KeyError ''output'')
         ((fst (report_success now3 ''input'' d1
              (testcase_session t file_in file_out public_arg now1 now2 (h, service))))
            \<lparr>successful_calls := [(Some ''input'', Some d1), (Some ''extra'', Some d9)]\<rparr>,
          snd (report_success now3 ''input'' d1
              (testcase_session t file_in file_out public_arg now1 now2 (h, service))))"
    by (simp add: testcase_session_eq report_success_def first_success
        AddTestcaseHandler_storage_callback_def)
  have extra_state:
    "sql_added (fst (report_success now3 ''input'' d1
           (testcase_session t file_in file_out public_arg now1 now2 (h, service)))) = sql_added h"
    "notifications (snd (report_success now3 ''input'' d1
           (testcase_session t file_in file_out public_arg now1 now2 (h, service))))
       = notifications service"
    by (simp_all add: testcase_session_eq report_success_def first_success)
  show ?thesis
    unfolding Let_def
    by (simp only: general added extra extra_state callback_success_raises post_issued_tags
        update_conv' length_dict_update)
       (simp add: extra_state)
qed

text \<open>
  Claim C6 fails on the code. When both \<^verbatim>\<open>put_file\<close> calls of
  \<^verbatim>\<open>AddTestcaseHandler.post\<close> return \<^verbatim>\<open>False\<close>, \<^verbatim>\<open>storage_callback\<close> runs twice with
  \<^verbatim>\<open>Connection failed.\<close> and queues both failures, but the second one raises at
  \<^verbatim>\<open>self.redirect\<close>, so \<^verbatim>\<open>post\<close> raises. When only one of the two calls returns
  \<^verbatim>\<open>False\<close>, and in \<^verbatim>\<open>AddStatementHandler.post\<close>, the failure is reported by the
  callback and \<^verbatim>\<open>post\<close> returns.
\<close>

theorem double_synchronous_failure_raises:
  "(let r = AddTestcaseHandler_post (Some t) [(''input'', [file_in]), (''output'', [file_out])]
              public_arg (False, now1) (False, now2) (new_request h, service)
    in error_of r = Some (PyException ''Cannot redirect after headers have been written'')
       \<and> notifications (snd (state_of r))
           = notifications service @
               [(PyFloat now1, ''Testcase storage failed'', ''Connection failed.''),
                (PyFloat now2, ''Testcase storage failed'', ''Connection failed.'')]
       \<and> redirects (fst (state_of r)) = redirects h @ [''/add_testcase/'' @ str_int (task_id t)])
   \<and>
   (let r = AddTestcaseHandler_post (Some t) [(''input'', [file_in]), (''output'', [file_out])]
              public_arg (False, now1) (True, now2) (new_request h, service)
    in error_of r = None
       \<and> notifications (snd (state_of r))
           = notifications service @
               [(PyFloat now1, ''Testcase storage failed'', ''Connection failed.'')])
   \<and>
   (let r = AddTestcaseHandler_post (Some t) [(''input'', [file_in]), (''output'', [file_out])]
              public_arg (True, now1) (False, now2) (new_request h, service)
    in error_of r = None
       \<and> notifications (snd (state_of r))
           = notifications service @
               [(PyFloat now2, ''Testcase storage failed'', ''Connection failed.'')])
   \<and>
   (let st = \<lparr>filename = base @ ''.pdf'', body = b\<rparr>;
        h1 = (new_request h)\<lparr>task := t, contest := Some (task_contest t), statement := st\<rparr>;
        service1 = put_file \<lparr>plus_tag = base @ ''.pdf'', binary_data = b,
                      description = ''Task statement for '' @ task_name t\<rparr> False service;
        r = AddStatementHandler_post (Some t) [(''statement'', [st])] False now
              (new_request h, service)
    in r = AddStatementHandler_storage_callback now None None (Some ''Connection failed.'')
             (h1, service1)
       \<and> error_of r = None
       \<and> notifications (snd (state_of r))
           = notifications service @
               [(PyFloat now, ''Task statement storage failed'', ''Connection failed.'')])"
  by (simp add: AddStatementHandler_post_def AddTestcaseHandler_post_def request_file_def
      endswith_append statement_failure_branch failure_branch put_testcase_file_def
      put_file_def new_request_def redirect_def finish_def Let_def)

text \<open>
  Claim C9 fails on the code. \<^verbatim>\<open>AddStatementHandler.post\<close> with a statement named
  \<^verbatim>\<open>notes.txt\<close> queues a notification whose timestamp is the float \<^verbatim>\<open>time.time()\<close>, not
  an integer: at clock 1.5 the queued timestamp is 1.5. The handlers that pass
  \<^verbatim>\<open>int(time.time())\<close> do queue an integer.
\<close>

theorem float_timestamp_queued:
  "map (is_integer \<circ> fst)
     (notifications (snd (state_of
        (AddStatementHandler_post (Some t) [(''statement'', [\<lparr>filename = ''notes.txt'', body = b\<rparr>])]
           sent now (h, service\<lparr>notifications := []\<rparr>)))))
     = [False]
   \<and> notifications (snd (state_of
        (AddStatementHandler_post (Some t) [(''statement'', [\<lparr>filename = ''notes.txt'', body = b\<rparr>])]
           sent (3 / 2) (h, service\<lparr>notifications := []\<rparr>))))
     = [(PyFloat (3 / 2), ''Invalid task statement'', ''The task statement must be a .pdf file.'')]
   \<and> is_integer (py_int (time_time now)) = True"
  by (simp add: AddStatementHandler_post_def request_file_def endswith_def snd_with_service
      add_notification_def time_time_def Let_def)

end
